theory Spec2Isabelle
  imports Complex_Main
begin

section \<open>Numbers\<close>

text \<open>
  The program is TypeScript; every quantity it computes with is a JavaScript number.
  Numbers are modelled as reals: rounding, infinities and NaN are outside the model, and
  every statement below is a statement about the arithmetic the source writes down.

  \<open>THREE.MathUtils.lerp(x, y, t)\<close> is the scalar interpolation of three.js,
  \<^verbatim>\<open>(1 - t) * x + t * y\<close>. It does not clamp \<open>t\<close>.
\<close>

definition lerp :: "real \<Rightarrow> real \<Rightarrow> real \<Rightarrow> real" where
  "lerp x y t = (1 - t) * x + t * y"

section \<open>Morph progress (LuxuryTree)\<close>

text \<open>
  \<^verbatim>\<open>
  const progressRef = useRef(0);
  useFrame((state, delta) => {
    const target = isHandOpen ? 1 : 0;
    progressRef.current = THREE.MathUtils.lerp(progressRef.current, target, delta * 2.0);
    if (rotatingGroupRef.current) {
       rotatingGroupRef.current.rotation.y += delta * 0.1;
    }
  });
  \<close>
  The state of the component is the progress scalar and the y rotation of the rotating
  group, which is absent (\<open>None\<close>) while the group is not mounted.
\<close>

record tree_state =
  progressRef :: real
  rotatingGroupRef :: "real option"

definition luxuryTreeInit :: "real option \<Rightarrow> tree_state" where
  "luxuryTreeInit g = \<lparr>progressRef = 0, rotatingGroupRef = g\<rparr>"

definition luxuryTreeFrame :: "bool \<Rightarrow> real \<Rightarrow> tree_state \<Rightarrow> tree_state" where
  "luxuryTreeFrame isHandOpen delta s =
     (let target = (if isHandOpen then 1 else 0)
      in \<lparr>progressRef = lerp (progressRef s) target (delta * 2.0),
          rotatingGroupRef =
            (case rotatingGroupRef s of
               None \<Rightarrow> None
             | Some ry \<Rightarrow> Some (ry + delta * 0.1))\<rparr>)"

text \<open>A run of ticks: each tick carries the gesture flag read from the store and the frame delta.\<close>

fun luxuryTreeRun :: "tree_state \<Rightarrow> (bool \<times> real) list \<Rightarrow> tree_state" where
  "luxuryTreeRun s [] = s"
| "luxuryTreeRun s ((isHandOpen, delta) # ticks) =
     luxuryTreeRun (luxuryTreeFrame isHandOpen delta s) ticks"

text \<open>The predicate on a run of ticks that the bounded rate needs: every frame delta lies in \<open>[0, 1/2]\<close>.\<close>

fun deltas_within :: "real \<Rightarrow> (bool \<times> real) list \<Rightarrow> bool" where
  "deltas_within b [] = True"
| "deltas_within b ((isHandOpen, delta) # ticks) =
     (0 \<le> delta \<and> delta \<le> b \<and> deltas_within b ticks)"

section \<open>Vectors and the three.js helpers the program calls\<close>

text \<open>
  \<open>THREE.Vector3\<close> with the operations the program uses. \<open>Vector3.lerp(v, alpha)\<close>
  moves each component by \<open>(v - this) * alpha\<close>; \<open>length()\<close> is the Euclidean norm;
  \<open>MathUtils.clamp\<close> and \<open>MathUtils.mapLinear\<close> are as three.js defines them.
\<close>

datatype Vector3 = Vector3 (vx: real) (vy: real) (vz: real)

definition vlerp :: "Vector3 \<Rightarrow> Vector3 \<Rightarrow> real \<Rightarrow> Vector3" where
  "vlerp a v alpha =
     Vector3 (vx a + (vx v - vx a) * alpha)
             (vy a + (vy v - vy a) * alpha)
             (vz a + (vz v - vz a) * alpha)"

definition vlength :: "Vector3 \<Rightarrow> real" where
  "vlength v = sqrt (vx v * vx v + vy v * vy v + vz v * vz v)"

definition clamp :: "real \<Rightarrow> real \<Rightarrow> real \<Rightarrow> real" where
  "clamp v lo hi = max lo (min hi v)"

definition mapLinear :: "real \<Rightarrow> real \<Rightarrow> real \<Rightarrow> real \<Rightarrow> real \<Rightarrow> real" where
  "mapLinear x a1 a2 b1 b2 = b1 + (x - a1) * (b2 - b1) / (a2 - a1)"

text \<open>\<open>Math.atan2(y, x)\<close>, by its standard case analysis on the quadrant.\<close>

definition atan2 :: "real \<Rightarrow> real \<Rightarrow> real" where
  "atan2 y x =
     (if 0 < x then arctan (y / x)
      else if x < 0 then (if 0 \<le> y then arctan (y / x) + pi else arctan (y / x) - pi)
      else if 0 < y then pi / 2
      else if y < 0 then - (pi / 2)
      else 0)"

section \<open>The store (store.ts)\<close>

text \<open>
  \<^verbatim>\<open>
  handX: 0.5, handY: 0.5, handZ: 0.5, isTracking: false, isHandOpen: false, userPhotos: [],
  setHandPosition: (x, y, z, isTracking, isHandOpen) =>
    set({ handX: x, handY: y, handZ: z, isTracking, isHandOpen }),
  addUserPhotos: (photos) => set((state) => ({ userPhotos: [...state.userPhotos, ...photos] })),
  \<close>
  The store's field \<open>isHandOpen\<close> is named \<open>isHandOpen_flag\<close> here, to keep the name
  \<open>isHandOpen\<close> for the classifier function of VisionManager.
\<close>

record TreeState =
  handX :: real
  handY :: real
  handZ :: real
  isTracking :: bool
  isHandOpen_flag :: bool
  userPhotos :: "string list"

definition useTreeStore_init :: TreeState where
  "useTreeStore_init =
     \<lparr>handX = 0.5, handY = 0.5, handZ = 0.5, isTracking = False,
      isHandOpen_flag = False, userPhotos = []\<rparr>"

text \<open>The five arguments of one call of \<open>setHandPosition\<close>: the gesture signal.\<close>

datatype GestureSignal =
  GestureSignal (sig_x: real) (sig_y: real) (sig_z: real) (sig_tracked: bool) (sig_open: bool)

definition setHandPosition :: "GestureSignal \<Rightarrow> TreeState \<Rightarrow> TreeState" where
  "setHandPosition g st =
     st\<lparr>handX := sig_x g, handY := sig_y g, handZ := sig_z g,
        isTracking := sig_tracked g, isHandOpen_flag := sig_open g\<rparr>"

definition addUserPhotos :: "string list \<Rightarrow> TreeState \<Rightarrow> TreeState" where
  "addUserPhotos photos st = st\<lparr>userPhotos := userPhotos st @ photos\<rparr>"

section \<open>The landmark classifier (VisionManager)\<close>

text \<open>
  A landmark is a point \<open>{x, y, z}\<close>. Reading \<open>landmarks[i]\<close> beyond the end of the array
  gives \<open>undefined\<close>, and reading a coordinate of \<open>undefined\<close> throws a TypeError; the
  model makes that an error value.
\<close>

record NormalizedLandmark =
  lm_x :: real
  lm_y :: real
  lm_z :: real

datatype error = TypeError

definition landmark_at :: "NormalizedLandmark list \<Rightarrow> nat \<Rightarrow> error + NormalizedLandmark" where
  "landmark_at landmarks i = (if i < length landmarks then Inr (landmarks ! i) else Inl TypeError)"

definition distSq :: "NormalizedLandmark \<Rightarrow> NormalizedLandmark \<Rightarrow> real" where
  "distSq p1 p2 = (lm_x p1 - lm_x p2) ^ 2 + (lm_y p1 - lm_y p2) ^ 2"

record finger =
  tip :: nat
  pip :: nat

definition fingerIndices :: "finger list" where
  "fingerIndices =
     [\<lparr>tip = 8, pip = 6\<rparr>, \<lparr>tip = 12, pip = 10\<rparr>, \<lparr>tip = 16, pip = 14\<rparr>, \<lparr>tip = 20, pip = 18\<rparr>]"

text \<open>
  \<^verbatim>\<open>
  let openFingers = 0;
  for (const finger of fingerIndices) {
    const distTip = distSq(wrist, landmarks[finger.tip]);
    const distPip = distSq(wrist, landmarks[finger.pip]);
    if (distTip > distPip) { openFingers++; }
  }
  return openFingers >= 3;
  \<close>
  The loop is a recursion over the finger table with the counter as accumulator.
\<close>

fun countOpenFingers :: "NormalizedLandmark list \<Rightarrow> finger list \<Rightarrow> nat \<Rightarrow> error + nat" where
  "countOpenFingers landmarks [] openFingers = Inr openFingers"
| "countOpenFingers landmarks (f # fs) openFingers =
     (case landmark_at landmarks 0 of
        Inl e \<Rightarrow> Inl e
      | Inr wrist \<Rightarrow>
          (case landmark_at landmarks (tip f) of
             Inl e \<Rightarrow> Inl e
           | Inr t \<Rightarrow>
               (case landmark_at landmarks (pip f) of
                  Inl e \<Rightarrow> Inl e
                | Inr p \<Rightarrow>
                    countOpenFingers landmarks fs
                      (if distSq wrist t > distSq wrist p then openFingers + 1 else openFingers))))"

definition isHandOpen :: "NormalizedLandmark list \<Rightarrow> error + bool" where
  "isHandOpen landmarks =
     (case countOpenFingers landmarks fingerIndices 0 of
        Inl e \<Rightarrow> Inl e
      | Inr openFingers \<Rightarrow> Inr (openFingers \<ge> 3))"

text \<open>
  One pass of the detection loop \<open>detect\<close>. Its inputs are \<open>video.currentTime\<close> and what
  \<open>landmarker.detectForVideo\<close> returned in \<open>results.landmarks\<close> (\<open>None\<close> when the field is
  absent, otherwise one landmark array per detected hand). The result is the call of
  \<open>setHandPosition\<close> the pass makes, if it makes one.
  \<^verbatim>\<open>
  if (video.currentTime > 0) {
    const results = landmarker.detectForVideo(video, performance.now());
    if (results.landmarks && results.landmarks.length > 0) {
      const landmarks = results.landmarks[0];
      const center = landmarks[9];
      const wrist = landmarks[0];
      const handX = 1 - center.x;
      const handY = center.y;
      const dx = center.x - wrist.x;
      const dy = center.y - wrist.y;
      const handSize = Math.sqrt(dx*dx + dy*dy);
      const isOpen = isHandOpen(landmarks);
      setHandPosition(handX, handY, handSize, true, isOpen);
    } else {
      useTreeStore.getState().setHandPosition(0.5, 0.5, 0.5, false, false);
    }
  }
  requestRef.current = requestAnimationFrame(detect);
  \<close>
\<close>

definition detectHand :: "NormalizedLandmark list \<Rightarrow> error + GestureSignal" where
  "detectHand landmarks =
     (case landmark_at landmarks 9 of
        Inl e \<Rightarrow> Inl e
      | Inr center \<Rightarrow>
          (case landmark_at landmarks 0 of
             Inl e \<Rightarrow> Inl e
           | Inr wrist \<Rightarrow>
               (let handX = 1 - lm_x center;
                    handY = lm_y center;
                    dx = lm_x center - lm_x wrist;
                    dy = lm_y center - lm_y wrist;
                    handSize = sqrt (dx * dx + dy * dy)
                in case isHandOpen landmarks of
                     Inl e \<Rightarrow> Inl e
                   | Inr isOpen \<Rightarrow> Inr (GestureSignal handX handY handSize True isOpen))))"

definition detectSignal :: "real \<Rightarrow> NormalizedLandmark list list option \<Rightarrow> error + GestureSignal option" where
  "detectSignal currentTime results =
     (if currentTime > 0 then
        (case results of
           Some (landmarks # others) \<Rightarrow>
             (case detectHand landmarks of Inl e \<Rightarrow> Inl e | Inr g \<Rightarrow> Inr (Some g))
         | _ \<Rightarrow> Inr (Some (GestureSignal 0.5 0.5 0.5 False False)))
      else Inr None)"

definition detect :: "real \<Rightarrow> NormalizedLandmark list list option \<Rightarrow> TreeState \<Rightarrow> error + TreeState" where
  "detect currentTime results st =
     (case detectSignal currentTime results of
        Inl e \<Rightarrow> Inl e
      | Inr None \<Rightarrow> Inr st
      | Inr (Some g) \<Rightarrow> Inr (setHandPosition g st))"

section \<open>The camera rig (GestureController, App.tsx)\<close>

text \<open>
  The rig owns \<open>currentPos\<close> and \<open>targetPos\<close>, both created as \<open>(0, 2, 14)\<close>, and writes
  the position of the scene camera. Each frame it reads the store.
  \<^verbatim>\<open>
  useFrame((state, delta) => {
    if (isTracking) {
      const azimuth = (handX - 0.5) * 2.5;
      const elevation = THREE.MathUtils.lerp(8, -2, handY);
      const zInput = THREE.MathUtils.clamp(handZ, 0.05, 0.35);
      const distance = THREE.MathUtils.mapLinear(zInput, 0.05, 0.35, 22, 6);
      targetPos.current.set(distance * Math.sin(azimuth), elevation, distance * Math.cos(azimuth));
      currentPos.current.lerp(targetPos.current, delta * 3);
      camera.position.copy(currentPos.current);
      camera.lookAt(0, 3, 0);
    } else {
      currentPos.current.copy(camera.position);
    }
  });
  \<close>
  \<open>camera_lookAt\<close> records the last point the rig aimed the camera at, if any.
\<close>

record rig_state =
  camera_position :: Vector3
  camera_lookAt :: "Vector3 option"
  currentPos :: Vector3
  targetPos :: Vector3

definition gestureControllerInit :: "Vector3 \<Rightarrow> rig_state" where
  "gestureControllerInit cam =
     \<lparr>camera_position = cam, camera_lookAt = None,
      currentPos = Vector3 0 2 14, targetPos = Vector3 0 2 14\<rparr>"

definition gestureControllerFrame :: "TreeState \<Rightarrow> real \<Rightarrow> rig_state \<Rightarrow> rig_state" where
  "gestureControllerFrame st delta s =
     (if isTracking st then
        (let azimuth = (handX st - 0.5) * 2.5;
             elevation = lerp 8 (-2) (handY st);
             zInput = clamp (handZ st) 0.05 0.35;
             distance = mapLinear zInput 0.05 0.35 22 6;
             target = Vector3 (distance * sin azimuth) elevation (distance * cos azimuth);
             current = vlerp (currentPos s) target (delta * 3)
         in \<lparr>camera_position = current, camera_lookAt = Some (Vector3 0 3 0),
             currentPos = current, targetPos = target\<rparr>)
      else s\<lparr>currentPos := camera_position s\<rparr>)"

text \<open>A run of frames, each with the store as it is at that frame and its delta.\<close>

fun gestureControllerRun :: "rig_state \<Rightarrow> (TreeState \<times> real) list \<Rightarrow> rig_state" where
  "gestureControllerRun s [] = s"
| "gestureControllerRun s ((st, delta) # frames) =
     gestureControllerRun (gestureControllerFrame st delta s) frames"

fun all_untracked :: "(TreeState \<times> real) list \<Rightarrow> bool" where
  "all_untracked [] = True"
| "all_untracked ((st, delta) # frames) = (\<not> isTracking st \<and> all_untracked frames)"

section \<open>The distribution generator (ParticleTree)\<close>

text \<open>
  \<^verbatim>\<open>
  const GOLDEN_ANGLE = Math.PI * (3 - Math.sqrt(5));
  const TREE_HEIGHT = 7;
  const TREE_WIDTH = 3.5;
  \<close>
\<close>

definition GOLDEN_ANGLE :: real where
  "GOLDEN_ANGLE = pi * (3 - sqrt 5)"

definition TREE_HEIGHT :: real where
  "TREE_HEIGHT = 7"

definition TREE_WIDTH :: real where
  "TREE_WIDTH = 3.5"

text \<open>
  \<open>getChaosPos\<close> calls \<open>Math.random()\<close> three times, for \<open>theta\<close>, for \<open>phi\<close> and for the
  radius, in this order; the three draws are arguments of the model. \<open>Math.cbrt\<close> is the real
  cube root and \<open>Math.acos\<close> the arc cosine.
  \<^verbatim>\<open>
  const getChaosPos = (scale = 10, minRatio = 0) => {
    const theta = Math.random() * Math.PI * 2;
    const phi = Math.acos(2 * Math.random() - 1);
    const minVol = Math.pow(minRatio, 3);
    const rRandom = Math.random() * (1 - minVol) + minVol;
    const r = Math.cbrt(rRandom) * scale;
    return new THREE.Vector3(
      r * Math.sin(phi) * Math.cos(theta),
      r * Math.sin(phi) * Math.sin(theta),
      r * Math.cos(phi));
  };
  \<close>
\<close>

definition getChaosPos :: "real \<Rightarrow> real \<Rightarrow> real \<Rightarrow> real \<Rightarrow> real \<Rightarrow> Vector3" where
  "getChaosPos scale minRatio u1 u2 u3 =
     (let theta = u1 * pi * 2;
          phi = arccos (2 * u2 - 1);
          minVol = minRatio ^ 3;
          rRandom = u3 * (1 - minVol) + minVol;
          r = root 3 rRandom * scale
      in Vector3 (r * sin phi * cos theta) (r * sin phi * sin theta) (r * cos phi))"

text \<open>
  \<^verbatim>\<open>
  const getTreePos = (t, theta, height, width) => {
    const y = height * t - height / 2;
    const radius = width * (1 - t);
    const x = radius * Math.cos(theta);
    const z = radius * Math.sin(theta);
    return new THREE.Vector3(x, y, z);
  };
  \<close>
\<close>

definition getTreePos :: "real \<Rightarrow> real \<Rightarrow> real \<Rightarrow> real \<Rightarrow> Vector3" where
  "getTreePos t theta height width =
     (let y = height * t - height / 2;
          radius = width * (1 - t);
          x = radius * cos theta;
          z = radius * sin theta
      in Vector3 x y z)"

text \<open>
  The foliage loop. \<open>Math.random\<close> is a stream of draws, \<open>rand k\<close> being the k-th draw since
  the loop began; iteration \<open>i\<close> makes seven draws, numbers \<open>7 i\<close> to \<open>7 i + 6\<close>: three for the
  jitter, three inside \<open>getChaosPos\<close>, one for the seed. The arrays \<open>target\<close>, \<open>chaos\<close> and
  \<open>random\<close> are modelled as one list of particles.
  \<^verbatim>\<open>
  for (let i = 0; i < count; i++) {
    const t = 1 - Math.sqrt((i + 1) / (count + 1));
    const theta = i * GOLDEN_ANGLE;
    const tPos = getTreePos(t, theta, TREE_HEIGHT, TREE_WIDTH);
    const noiseAmp = 0.05;
    tPos.x += (Math.random() - 0.5) * noiseAmp;
    tPos.y += (Math.random() - 0.5) * noiseAmp;
    tPos.z += (Math.random() - 0.5) * noiseAmp;
    ...
    const cPos = getChaosPos(25, 0.5);
    ...
    random[i] = Math.random();
  }
  \<close>
\<close>

record particle =
  aTargetPos :: Vector3
  aChaosPos :: Vector3
  aRandom :: real

definition foliageParticle :: "nat \<Rightarrow> (nat \<Rightarrow> real) \<Rightarrow> nat \<Rightarrow> particle" where
  "foliageParticle count rand i =
     (let t = 1 - sqrt ((real i + 1) / (real count + 1));
          theta = real i * GOLDEN_ANGLE;
          tPos = getTreePos t theta TREE_HEIGHT TREE_WIDTH;
          noiseAmp = 0.05;
          x = vx tPos + (rand (7 * i) - 0.5) * noiseAmp;
          y = vy tPos + (rand (7 * i + 1) - 0.5) * noiseAmp;
          z = vz tPos + (rand (7 * i + 2) - 0.5) * noiseAmp;
          cPos = getChaosPos 25 0.5 (rand (7 * i + 3)) (rand (7 * i + 4)) (rand (7 * i + 5))
      in \<lparr>aTargetPos = Vector3 x y z, aChaosPos = cPos, aRandom = rand (7 * i + 6)\<rparr>)"

definition foliage :: "nat \<Rightarrow> (nat \<Rightarrow> real) \<Rightarrow> particle list" where
  "foliage count rand = map (foliageParticle count rand) [0..<count]"

definition Foliage :: "(nat \<Rightarrow> real) \<Rightarrow> particle list" where
  "Foliage rand = foliage 9000 rand"

section \<open>Instance-level objects (GiftBox, OrnamentInstance, SinglePolaroid)\<close>

text \<open>
  Each of these components keeps its own \<open>currentPos\<close>, created as a clone of its formed
  position, and a reference to its scene object, which is null (\<open>None\<close>) until the object
  is mounted; the frame callback returns at once when it is null. The object carries a
  position, Euler angles and a scale, whose three components the code always sets to one
  value.
\<close>

record Object3D =
  position :: Vector3
  rotation :: Vector3
  scale :: real

record instance_state =
  inst_currentPos :: Vector3
  inst_ref :: "Object3D option"

text \<open>
  \<^verbatim>\<open>
  const GiftBox = ({ target, chaos, scale, boxColor, ribbonColor, rot, progressRef }) => {
    const currentPos = useRef(target.clone());
    useFrame((state, delta) => {
      if (!groupRef.current) return;
      const progress = progressRef.current;
      const dest = progress > 0.5 ? chaos : target;
      currentPos.current.lerp(dest, delta * 2.5);
      groupRef.current.position.copy(currentPos.current);
      if (progress > 0.2) {
         groupRef.current.rotation.x += delta * 0.5;
         groupRef.current.rotation.y += delta * 0.5;
      } else {
         groupRef.current.rotation.x = THREE.MathUtils.lerp(groupRef.current.rotation.x, rot.x, delta * 5);
         (the same for y and z)
      }
      const s = scale * (1 + progress * 0.3);
      groupRef.current.scale.setScalar(s);
    });
  \<close>
\<close>

record gift_props =
  gift_target :: Vector3
  gift_chaos :: Vector3
  gift_scale :: real
  gift_rot :: Vector3

definition giftBoxFrame :: "gift_props \<Rightarrow> real \<Rightarrow> real \<Rightarrow> instance_state \<Rightarrow> instance_state" where
  "giftBoxFrame props progress delta s =
     (case inst_ref s of
        None \<Rightarrow> s
      | Some g \<Rightarrow>
          (let dest = (if progress > 0.5 then gift_chaos props else gift_target props);
               cur = vlerp (inst_currentPos s) dest (delta * 2.5);
               r = rotation g;
               r' = (if progress > 0.2
                     then Vector3 (vx r + delta * 0.5) (vy r + delta * 0.5) (vz r)
                     else Vector3 (lerp (vx r) (vx (gift_rot props)) (delta * 5))
                                  (lerp (vy r) (vy (gift_rot props)) (delta * 5))
                                  (lerp (vz r) (vz (gift_rot props)) (delta * 5)));
               sc = gift_scale props * (1 + progress * 0.3)
           in \<lparr>inst_currentPos = cur,
               inst_ref = Some \<lparr>position = cur, rotation = r', scale = sc\<rparr>\<rparr>))"

text \<open>
  \<^verbatim>\<open>
  const OrnamentInstance = ({ data, scaleBase, progressRef }) => {
    const { target, chaos, scale } = data;
    const currentPos = useRef(target.clone());
    useFrame((_, delta) => {
      if (!ref.current) return;
      const progress = progressRef.current;
      const dest = progress > 0.5 ? chaos : target;
      currentPos.current.lerp(dest, delta * 3);
      ref.current.position.copy(currentPos.current);
      const s = scaleBase * scale * (1 - progress * 0.3);
      ref.current.scale.set(s, s, s);
      ref.current.rotation.x += delta;
      ref.current.rotation.y += delta;
    });
  \<close>
\<close>

record ornament_data =
  orn_target :: Vector3
  orn_chaos :: Vector3
  orn_scale :: real

definition ornamentInstanceFrame ::
  "ornament_data \<Rightarrow> real \<Rightarrow> real \<Rightarrow> real \<Rightarrow> instance_state \<Rightarrow> instance_state" where
  "ornamentInstanceFrame data scaleBase progress delta s =
     (case inst_ref s of
        None \<Rightarrow> s
      | Some g \<Rightarrow>
          (let dest = (if progress > 0.5 then orn_chaos data else orn_target data);
               cur = vlerp (inst_currentPos s) dest (delta * 3);
               sc = scaleBase * orn_scale data * (1 - progress * 0.3);
               r = rotation g
           in \<lparr>inst_currentPos = cur,
               inst_ref = Some \<lparr>position = cur,
                                rotation = Vector3 (vx r + delta) (vy r + delta) (vz r),
                                scale = sc\<rparr>\<rparr>))"

text \<open>
  The photo panel. Its orientation is written in one of two ways: as Euler angles by
  \<open>rotation.set\<close>, or by \<open>lookAt(p)\<close> followed by \<open>rotateX(a)\<close> and \<open>rotateZ(b)\<close>, which the
  model records as such without computing the resulting quaternion.
  \<^verbatim>\<open>
  useFrame((state, delta) => {
    if (!groupRef.current) return;
    const progress = progressRef.current;
    const dest = progress > 0.5 ? data.chaos : data.target;
    currentPos.current.lerp(dest, delta * 2);
    groupRef.current.position.copy(currentPos.current);
    const targetScale = progress > 0.5 ? 2.0 : 1.0;
    const currentScale = groupRef.current.scale.x;
    const newScale = THREE.MathUtils.lerp(currentScale, targetScale, delta * 3);
    groupRef.current.scale.setScalar(newScale);
    if (progress > 0.5) {
        groupRef.current.lookAt(state.camera.position);
        groupRef.current.rotateX(data.tilt.x);
        groupRef.current.rotateZ(data.tilt.z);
    } else {
        const angle = Math.atan2(currentPos.current.x, currentPos.current.z);
        groupRef.current.rotation.set(0, angle, 0);
    }
  });
  \<close>
\<close>

datatype orientation =
  Euler real real real
| LookAtThenRotateXZ Vector3 real real

record polaroid_group =
  pol_position :: Vector3
  pol_orientation :: orientation
  pol_scale :: real

record polaroid_state =
  pol_currentPos :: Vector3
  pol_ref :: "polaroid_group option"

record polaroid_data =
  pol_target :: Vector3
  pol_chaos :: Vector3
  tilt_x :: real
  tilt_z :: real

definition singlePolaroidFrame ::
  "polaroid_data \<Rightarrow> Vector3 \<Rightarrow> real \<Rightarrow> real \<Rightarrow> polaroid_state \<Rightarrow> polaroid_state" where
  "singlePolaroidFrame data camera progress delta s =
     (case pol_ref s of
        None \<Rightarrow> s
      | Some g \<Rightarrow>
          (let dest = (if progress > 0.5 then pol_chaos data else pol_target data);
               cur = vlerp (pol_currentPos s) dest (delta * 2);
               targetScale = (if progress > 0.5 then 2.0 else 1.0);
               newScale = lerp (pol_scale g) targetScale (delta * 3);
               orient = (if progress > 0.5
                         then LookAtThenRotateXZ camera (tilt_x data) (tilt_z data)
                         else Euler 0 (atan2 (vx cur) (vz cur)) 0)
           in \<lparr>pol_currentPos = cur,
               pol_ref = Some \<lparr>pol_position = cur, pol_orientation = orient, pol_scale = newScale\<rparr>\<rparr>))"

section \<open>Photo panels and the photo list (Polaroids)\<close>

text \<open>
  \<^verbatim>\<open>
  const count = 48;
  {data.map((d, i) => {
    const photoUrl = userPhotos.length > 0 ? userPhotos[i % userPhotos.length] : null;
    return (<SinglePolaroid ... photoUrl={photoUrl} />);
  })}
  \<close>
  and, in \<open>SinglePolaroid\<close>,
  \<^verbatim>\<open>
  {photoUrl ? (<PhotoPlane url={photoUrl} />) : (<mesh ...> dark placeholder plane </mesh>)}
  \<close>
  A string is truthy when it is not empty.
\<close>

datatype panel_content = PhotoPlane string | Placeholder

record polaroid_slot =
  photoUrl :: "string option"
  content :: panel_content

definition slotPhotoUrl :: "string list \<Rightarrow> nat \<Rightarrow> string option" where
  "slotPhotoUrl photos i =
     (if length photos > 0 then Some (photos ! (i mod length photos)) else None)"

definition slotContent :: "string option \<Rightarrow> panel_content" where
  "slotContent url =
     (case url of
        None \<Rightarrow> Placeholder
      | Some u \<Rightarrow> (if u = [] then Placeholder else PhotoPlane u))"

definition Polaroids :: "string list \<Rightarrow> polaroid_slot list" where
  "Polaroids photos =
     map (\<lambda>i. \<lparr>photoUrl = slotPhotoUrl photos i, content = slotContent (slotPhotoUrl photos i)\<rparr>)
         [0..<48]"

section \<open>Properties of the morph progress\<close>

lemma progress_frame:
  "progressRef (luxuryTreeFrame gestureOpen delta s) =
     lerp (progressRef s) (if gestureOpen then 1 else 0) (delta * 2)"
  by (simp add: luxuryTreeFrame_def)

lemma lerp_unit_interval:
  assumes "0 \<le> p" "p \<le> 1" "0 \<le> g" "g \<le> 1" "0 \<le> t" "t \<le> 1"
  shows "0 \<le> lerp p g t \<and> lerp p g t \<le> 1"
proof -
  have nonneg: "0 \<le> (1 - t) * p + t * g"
    using assms by simp
  have "(1 - t) * p \<le> (1 - t) * 1"
    using assms by (intro mult_left_mono) simp_all
  moreover have "t * g \<le> t * 1"
    using assms by (intro mult_left_mono) simp_all
  ultimately have "(1 - t) * p + t * g \<le> 1" by simp
  with nonneg show ?thesis by (simp add: lerp_def)
qed

lemma progress_run_bounded:
  "deltas_within (1/2) ticks \<Longrightarrow> 0 \<le> progressRef s \<Longrightarrow> progressRef s \<le> 1 \<Longrightarrow>
   0 \<le> progressRef (luxuryTreeRun s ticks) \<and> progressRef (luxuryTreeRun s ticks) \<le> 1"
proof (induction ticks arbitrary: s)
  case Nil
  then show ?case by simp
next
  case (Cons tick ticks)
  obtain gestureOpen delta where tick: "tick = (gestureOpen, delta)"
    by (cases tick)
  let ?s' = "luxuryTreeFrame gestureOpen delta s"
  from Cons.prems tick have d: "0 \<le> delta * 2" "delta * 2 \<le> 1" and rest: "deltas_within (1/2) ticks"
    by simp_all
  have "0 \<le> progressRef ?s' \<and> progressRef ?s' \<le> 1"
    using lerp_unit_interval [OF Cons.prems(2,3) _ _ d, of "if gestureOpen then 1 else 0"]
    by (simp add: progress_frame)
  then show ?case
    using Cons.IH [OF rest, of ?s'] tick by simp
qed

text \<open>
  Claim C1, as the code has it. Starting from progress 0, after any run of ticks whose
  frame deltas all lie between 0 and 1/2 second (so that the interpolation factor
  \<open>delta * 2\<close> is at most 1), and whatever the gesture flag is at each tick, the stored
  morph progress lies between 0 and 1.
\<close>

theorem progress_bounds_small_delta:
  "deltas_within (1/2) ticks \<Longrightarrow>
   0 \<le> progressRef (luxuryTreeRun (luxuryTreeInit g) ticks) \<and>
   progressRef (luxuryTreeRun (luxuryTreeInit g) ticks) \<le> 1"
  by (rule progress_run_bounded) (simp_all add: luxuryTreeInit_def)

theorem progress_bounds_small_delta_witness:
  "deltas_within (1/2) [(True, 1/60), (False, 1/2), (True, 0)] \<and>
   0 \<le> progressRef (luxuryTreeRun (luxuryTreeInit None) [(True, 1/60), (False, 1/2), (True, 0)]) \<and>
   progressRef (luxuryTreeRun (luxuryTreeInit None) [(True, 1/60), (False, 1/2), (True, 0)]) \<le> 1"
proof -
  have h: "deltas_within (1/2) [(True, 1/60), (False, 1/2), (True, 0)]"
    by simp
  from progress_bounds_small_delta [OF h, of None] h show ?thesis
    by blast
qed

text \<open>
  Claim C1, as stated, fails: the frame delta is only required to be non-negative, and
  the interpolation factor is not clamped. One tick of one second with the hand open takes
  the progress from 0 to 2.
\<close>

theorem progress_bounds_counterexample:
  "(0::real) \<le> 1 \<and> progressRef (luxuryTreeRun (luxuryTreeInit None) [(True, 1)]) = 2 \<and>
   \<not> progressRef (luxuryTreeRun (luxuryTreeInit None) [(True, 1)]) \<le> 1"
  by (simp add: luxuryTreeInit_def luxuryTreeFrame_def lerp_def)

lemma progress_open_closed_form:
  "progressRef (luxuryTreeRun s (replicate n (True, delta))) =
     1 - (1 - delta * 2) ^ n * (1 - progressRef s)"
proof (induction n arbitrary: s)
  case 0
  then show ?case by simp
next
  case (Suc n)
  show ?case
    by (simp add: Suc.IH progress_frame lerp_def algebra_simps)
qed

lemma decay_180_ticks: "(29 / 30 :: real) ^ 180 \<le> 3 / 1000"
  by (simp add: power_divide)

text \<open>
  Claim C9. From progress 0, with the hand held open for 180 ticks of 1/60 second each
  (rate constant 2.0 as in the source), the morph progress is at least 0.997.
\<close>

theorem progress_after_three_seconds:
  "progressRef (luxuryTreeRun (luxuryTreeInit g) (replicate 180 (True, 1 / 60))) \<ge> 0.997"
proof -
  have "progressRef (luxuryTreeRun (luxuryTreeInit g) (replicate 180 (True, 1 / 60)))
      = 1 - (29 / 30) ^ 180"
    by (simp add: progress_open_closed_form luxuryTreeInit_def)
  with decay_180_ticks show ?thesis by simp
qed

section \<open>Properties of the landmark classifier\<close>

text \<open>
  Claim C2. For a hand sample \<open>a\<close> of 21 landmarks, \<open>isHandOpen\<close> returns normally, and
  returns true exactly when at least 3 of the four (tip, PIP) pairs (8, 6), (12, 10),
  (16, 14), (20, 18) have the squared distance from landmark 0 to the tip strictly greater
  than that to the PIP. The function has no state, so a sample always gives the same
  answer; moreover the answer depends on the sample only through those eight squared
  distances: a second sample \<open>b\<close> with the same distances gets the same answer.
\<close>

theorem isHandOpen_three_of_four:
  assumes "length a = 21" and "length b = 21"
    and "\<forall>k \<in> {6, 8, 10, 12, 14, 16, 18, 20}. distSq (b ! 0) (b ! k) = distSq (a ! 0) (a ! k)"
  shows "isHandOpen a =
           Inr (3 \<le> length (filter (\<lambda>(t, p). distSq (a ! 0) (a ! t) > distSq (a ! 0) (a ! p))
                              [(8, 6), (12, 10), (16, 14), (20, 18)]))
         \<and> isHandOpen b = isHandOpen a"
  using assms by (simp add: isHandOpen_def fingerIndices_def landmark_at_def)

theorem isHandOpen_three_of_four_witness:
  "isHandOpen (map (\<lambda>k. \<lparr>lm_x = k, lm_y = 0, lm_z = 0\<rparr>)
       [0, 1, 2, 3, 4, 5, 6, 7, 8, 9, 10, 11, 12, 13, 14, 15, 16, 17, 18, 19, 20]) = Inr True
   \<and> isHandOpen (map (\<lambda>k. \<lparr>lm_x = 0, lm_y = k, lm_z = 7\<rparr>)
       [0, 1, 2, 3, 4, 5, 6, 7, 8, 9, 10, 11, 12, 13, 14, 15, 16, 17, 18, 19, 20]) = Inr True"
  using isHandOpen_three_of_four
    [of "map (\<lambda>k. \<lparr>lm_x = k, lm_y = 0, lm_z = 0\<rparr>)
       [0, 1, 2, 3, 4, 5, 6, 7, 8, 9, 10, 11, 12, 13, 14, 15, 16, 17, 18, 19, 20]"
        "map (\<lambda>k. \<lparr>lm_x = 0, lm_y = k, lm_z = 7\<rparr>)
       [0, 1, 2, 3, 4, 5, 6, 7, 8, 9, 10, 11, 12, 13, 14, 15, 16, 17, 18, 19, 20]"]
  by (simp add: distSq_def)

lemma landmark_at_map: "landmark_at (map f ls) i = map_sum id f (landmark_at ls i)"
  by (simp add: landmark_at_def)

lemma distSq_drop_depth: "distSq (p\<lparr>lm_z := 0\<rparr>) (q\<lparr>lm_z := 0\<rparr>) = distSq p q"
  by (simp add: distSq_def)

lemma countOpenFingers_drop_depth:
  "countOpenFingers (map (\<lambda>p. p\<lparr>lm_z := 0\<rparr>) ls) fs n = countOpenFingers ls fs n"
  by (induction fs arbitrary: n) (auto simp: landmark_at_map distSq_drop_depth split: sum.splits)

lemma isHandOpen_drop_depth: "isHandOpen (map (\<lambda>p. p\<lparr>lm_z := 0\<rparr>) ls) = isHandOpen ls"
  by (simp add: isHandOpen_def countOpenFingers_drop_depth)

text \<open>
  Claim C10. Two samples of the same length that agree on the x and y of every landmark,
  whatever their z coordinates are, get the same result from \<open>isHandOpen\<close> (the same boolean,
  or the same error when the sample is too short).
\<close>

theorem isHandOpen_ignores_depth:
  assumes "length a = length b"
    and "\<forall>i < length a. lm_x (a ! i) = lm_x (b ! i) \<and> lm_y (a ! i) = lm_y (b ! i)"
  shows "isHandOpen a = isHandOpen b"
proof -
  have "map (\<lambda>p. p\<lparr>lm_z := 0\<rparr>) a = map (\<lambda>p. p\<lparr>lm_z := 0\<rparr>) b"
    using assms by (auto intro!: nth_equalityI)
  then have "isHandOpen (map (\<lambda>p. p\<lparr>lm_z := 0\<rparr>) a) = isHandOpen (map (\<lambda>p. p\<lparr>lm_z := 0\<rparr>) b)"
    by simp
  then show ?thesis by (simp only: isHandOpen_drop_depth)
qed

theorem isHandOpen_ignores_depth_witness:
  "isHandOpen (map (\<lambda>k. \<lparr>lm_x = k, lm_y = 1 - k, lm_z = 0\<rparr>)
       [0, 1, 2, 3, 4, 5, 6, 7, 8, 9, 10, 11, 12, 13, 14, 15, 16, 17, 18, 19, 20])
   = isHandOpen (map (\<lambda>k. \<lparr>lm_x = k, lm_y = 1 - k, lm_z = k * k - 5\<rparr>)
       [0, 1, 2, 3, 4, 5, 6, 7, 8, 9, 10, 11, 12, 13, 14, 15, 16, 17, 18, 19, 20])"
proof -
  have len: "length (map (\<lambda>k. \<lparr>lm_x = k, lm_y = 1 - k, lm_z = 0\<rparr>) ks)
      = length (map (\<lambda>k. \<lparr>lm_x = k, lm_y = 1 - k, lm_z = k * k - 5\<rparr>) ks)" for ks :: "real list"
    by simp
  have xy: "\<forall>i < length (map (\<lambda>k. \<lparr>lm_x = k, lm_y = 1 - k, lm_z = 0\<rparr>) ks).
      lm_x (map (\<lambda>k. \<lparr>lm_x = k, lm_y = 1 - k, lm_z = 0\<rparr>) ks ! i)
        = lm_x (map (\<lambda>k. \<lparr>lm_x = k, lm_y = 1 - k, lm_z = k * k - 5\<rparr>) ks ! i)
      \<and> lm_y (map (\<lambda>k. \<lparr>lm_x = k, lm_y = 1 - k, lm_z = 0\<rparr>) ks ! i)
        = lm_y (map (\<lambda>k. \<lparr>lm_x = k, lm_y = 1 - k, lm_z = k * k - 5\<rparr>) ks ! i)" for ks :: "real list"
    by simp
  show ?thesis
    by (rule isHandOpen_ignores_depth [OF len xy])
qed

section \<open>Properties of the detection loop\<close>

lemma detectHand_21:
  "length landmarks = 21 \<Longrightarrow> \<exists>g. detectHand landmarks = Inr g \<and> sig_tracked g"
  by (simp add: detectHand_def landmark_at_def isHandOpen_def fingerIndices_def Let_def)

text \<open>
  Claim C7, as the code has it. In a pass of the detection loop in which the video has
  started (\<open>video.currentTime > 0\<close>), a signal is always emitted and nothing is thrown:
  when the landmarker reports no hand (no \<open>landmarks\<close> field, or an empty list) the signal is
  exactly \<open>(0.5, 0.5, 0.5)\<close> with tracked false and open false, and the store holds these
  values afterwards; when it reports a hand of 21 landmarks the signal has tracked true.
\<close>

theorem detect_emits_signal:
  assumes "0 < currentTime"
  shows "(results = None \<or> results = Some [] \<longrightarrow>
            detectSignal currentTime results = Inr (Some (GestureSignal 0.5 0.5 0.5 False False))
          \<and> detect currentTime results st =
              Inr (st\<lparr>handX := 0.5, handY := 0.5, handZ := 0.5,
                     isTracking := False, isHandOpen_flag := False\<rparr>))
       \<and> (\<forall>hand others. results = Some (hand # others) \<and> length hand = 21 \<longrightarrow>
            (\<exists>g. detectSignal currentTime results = Inr (Some g) \<and> sig_tracked g))"
proof (intro conjI impI allI)
  assume "results = None \<or> results = Some []"
  with assms show "detectSignal currentTime results = Inr (Some (GestureSignal 0.5 0.5 0.5 False False))"
    by (auto simp: detectSignal_def)
  then show "detect currentTime results st =
      Inr (st\<lparr>handX := 0.5, handY := 0.5, handZ := 0.5, isTracking := False, isHandOpen_flag := False\<rparr>)"
    by (simp add: detect_def setHandPosition_def)
next
  fix hand others
  assume "results = Some (hand # others) \<and> length hand = 21"
  with assms detectHand_21 [of hand]
  show "\<exists>g. detectSignal currentTime results = Inr (Some g) \<and> sig_tracked g"
    by (auto simp: detectSignal_def)
qed

theorem detect_emits_signal_witness:
  "(0::real) < 1 / 30
   \<and> detectSignal (1 / 30) (Some []) = Inr (Some (GestureSignal 0.5 0.5 0.5 False False))
   \<and> detect (1 / 30) (Some []) (useTreeStore_init\<lparr>isTracking := True, handX := 0.9\<rparr>) =
       Inr (useTreeStore_init\<lparr>isTracking := True, handX := 0.9\<rparr>
              \<lparr>handX := 0.5, handY := 0.5, handZ := 0.5, isTracking := False, isHandOpen_flag := False\<rparr>)"
  using detect_emits_signal [of "1 / 30" "Some []" "useTreeStore_init\<lparr>isTracking := True, handX := 0.9\<rparr>"]
  by simp

text \<open>
  Claim C7, as stated, fails: a pass of the loop with \<open>video.currentTime = 0\<close> runs no
  detection and calls \<open>setHandPosition\<close> not at all, so no signal is emitted in that pass
  and a store that said tracked stays as it was.
\<close>

theorem detect_counterexample:
  "detectSignal 0 None = Inr None
   \<and> detectSignal 0 None \<noteq> Inr (Some (GestureSignal 0.5 0.5 0.5 False False))
   \<and> detect 0 None (useTreeStore_init\<lparr>isTracking := True\<rparr>) = Inr (useTreeStore_init\<lparr>isTracking := True\<rparr>)
   \<and> isTracking (useTreeStore_init\<lparr>isTracking := True\<rparr>)"
  by (simp add: detectSignal_def detect_def)

section \<open>Properties of the camera rig\<close>

lemma frame_untracked:
  "\<not> isTracking st \<Longrightarrow> gestureControllerFrame st delta s = s\<lparr>currentPos := camera_position s\<rparr>"
  by (simp add: gestureControllerFrame_def)

lemma run_untracked:
  "all_untracked frames \<Longrightarrow>
   gestureControllerRun s frames = (if frames = [] then s else s\<lparr>currentPos := camera_position s\<rparr>)"
proof (induction frames arbitrary: s)
  case Nil
  then show ?case by simp
next
  case (Cons fr frames)
  obtain st delta where fr: "fr = (st, delta)" by (cases fr)
  with Cons.prems have u: "\<not> isTracking st" and rest: "all_untracked frames" by simp_all
  show ?case
    using Cons.IH [OF rest, of "s\<lparr>currentPos := camera_position s\<rparr>"] fr u
    by (simp add: frame_untracked)
qed

text \<open>
  Claim C3. Over any run of frames in which the store says untracked, whatever the frame
  deltas and the other store fields are, the rig leaves the camera position as it was when
  the run began; after at least one such frame \<open>currentPos\<close> equals that camera position;
  and a tracked frame that follows interpolates from that position, not from where
  \<open>currentPos\<close> was before tracking was lost.
\<close>

theorem freeze_on_loss:
  assumes "all_untracked frames"
  shows "camera_position (gestureControllerRun s frames) = camera_position s
       \<and> (frames \<noteq> [] \<longrightarrow> currentPos (gestureControllerRun s frames) = camera_position s)
       \<and> (isTracking st \<and> frames \<noteq> [] \<longrightarrow>
           camera_position (gestureControllerFrame st delta (gestureControllerRun s frames))
             = vlerp (camera_position s)
                 (targetPos (gestureControllerFrame st delta (gestureControllerRun s frames)))
                 (delta * 3))"
  using assms by (simp add: run_untracked gestureControllerFrame_def Let_def)

theorem freeze_on_loss_witness:
  "all_untracked [(useTreeStore_init, 1 / 60), (useTreeStore_init\<lparr>handX := 0.1\<rparr>, 2)]
   \<and> camera_position (gestureControllerRun (gestureControllerInit (Vector3 1 2 3))
        [(useTreeStore_init, 1 / 60), (useTreeStore_init\<lparr>handX := 0.1\<rparr>, 2)]) = Vector3 1 2 3
   \<and> currentPos (gestureControllerRun (gestureControllerInit (Vector3 1 2 3))
        [(useTreeStore_init, 1 / 60), (useTreeStore_init\<lparr>handX := 0.1\<rparr>, 2)]) = Vector3 1 2 3
   \<and> currentPos (gestureControllerInit (Vector3 1 2 3)) = Vector3 0 2 14"
proof -
  have h: "all_untracked [(useTreeStore_init, 1 / 60), (useTreeStore_init\<lparr>handX := 0.1\<rparr>, 2)]"
    by (simp add: useTreeStore_init_def)
  from freeze_on_loss [OF h, of "gestureControllerInit (Vector3 1 2 3)"] h
  show ?thesis by (simp add: gestureControllerInit_def)
qed

section \<open>Properties of the photo panels\<close>

text \<open>
  Claim C8. There are 48 photo-panel slots. With a photo list of length \<open>L > 0\<close>, slot \<open>i\<close>
  is bound to the photo at index \<open>i mod L\<close>; with the empty list every slot has no photo
  and renders the placeholder.
\<close>

theorem photo_cycling:
  assumes "i < 48"
  shows "(length photos > 0 \<longrightarrow>
            photoUrl (Polaroids photos ! i) = Some (photos ! (i mod length photos)))
       \<and> (photos = [] \<longrightarrow>
            photoUrl (Polaroids photos ! i) = None \<and> content (Polaroids photos ! i) = Placeholder)
       \<and> length (Polaroids photos) = 48"
  using assms by (simp add: Polaroids_def slotPhotoUrl_def slotContent_def)

theorem photo_cycling_witness:
  "(5::nat) < 48
   \<and> photoUrl (Polaroids [''first.jpg'', ''second.jpg''] ! 5) = Some ''second.jpg''
   \<and> photoUrl (Polaroids [''first.jpg'', ''second.jpg''] ! 4) = Some ''first.jpg''
   \<and> content (Polaroids [] ! 5) = Placeholder"
proof -
  have two: "length [''first.jpg'', ''second.jpg''] = 2"
    by simp
  have "photoUrl (Polaroids [''first.jpg'', ''second.jpg''] ! 5)
      = Some ([''first.jpg'', ''second.jpg''] ! (5 mod length [''first.jpg'', ''second.jpg'']))"
    using photo_cycling [of 5 "[''first.jpg'', ''second.jpg'']"] by simp
  moreover have "photoUrl (Polaroids [''first.jpg'', ''second.jpg''] ! 4)
      = Some ([''first.jpg'', ''second.jpg''] ! (4 mod length [''first.jpg'', ''second.jpg'']))"
    using photo_cycling [of 4 "[''first.jpg'', ''second.jpg'']"] by simp
  moreover have "content (Polaroids [] ! 5) = Placeholder"
    using photo_cycling [of 5 "[]"] by simp
  ultimately show ?thesis
    unfolding two by simp
qed

section \<open>Properties of the instance-level objects\<close>

text \<open>
  Claim C6. In a frame of a mounted gift box, ornament instance or photo panel, the
  position is interpolated from \<open>currentPos\<close> toward the chaos position when
  \<open>progress > 0.5\<close> and toward the formed position otherwise, never toward a mix of the
  two. A photo panel at \<open>progress \<le> 0.5\<close> gets the Euler rotation
  \<open>(0, atan2(x, z), 0)\<close> of its new position \<open>(x, _, z)\<close>; at \<open>progress > 0.5\<close> it looks at
  the camera and is then tilted by its fixed \<open>tilt.x\<close> and \<open>tilt.z\<close>.
\<close>

theorem threshold_gated_destination:
  assumes "inst_ref gs = Some g" and "inst_ref os = Some og" and "pol_ref ps = Some pg"
  shows "(progress > 0.5 \<longrightarrow>
            map_option position (inst_ref (giftBoxFrame gp progress delta gs))
              = Some (vlerp (inst_currentPos gs) (gift_chaos gp) (delta * 2.5))
          \<and> map_option position (inst_ref (ornamentInstanceFrame od scaleBase progress delta os))
              = Some (vlerp (inst_currentPos os) (orn_chaos od) (delta * 3))
          \<and> map_option pol_position (pol_ref (singlePolaroidFrame pd camera progress delta ps))
              = Some (vlerp (pol_currentPos ps) (pol_chaos pd) (delta * 2))
          \<and> map_option pol_orientation (pol_ref (singlePolaroidFrame pd camera progress delta ps))
              = Some (LookAtThenRotateXZ camera (tilt_x pd) (tilt_z pd)))
       \<and> (progress \<le> 0.5 \<longrightarrow>
            map_option position (inst_ref (giftBoxFrame gp progress delta gs))
              = Some (vlerp (inst_currentPos gs) (gift_target gp) (delta * 2.5))
          \<and> map_option position (inst_ref (ornamentInstanceFrame od scaleBase progress delta os))
              = Some (vlerp (inst_currentPos os) (orn_target od) (delta * 3))
          \<and> map_option pol_position (pol_ref (singlePolaroidFrame pd camera progress delta ps))
              = Some (vlerp (pol_currentPos ps) (pol_target pd) (delta * 2))
          \<and> map_option pol_orientation (pol_ref (singlePolaroidFrame pd camera progress delta ps))
              = Some (Euler 0 (atan2 (vx (vlerp (pol_currentPos ps) (pol_target pd) (delta * 2)))
                                     (vz (vlerp (pol_currentPos ps) (pol_target pd) (delta * 2)))) 0))
       \<and> inst_currentPos (giftBoxFrame gp progress delta gs)
            = vlerp (inst_currentPos gs) (if progress > 0.5 then gift_chaos gp else gift_target gp) (delta * 2.5)
       \<and> inst_currentPos (ornamentInstanceFrame od scaleBase progress delta os)
            = vlerp (inst_currentPos os) (if progress > 0.5 then orn_chaos od else orn_target od) (delta * 3)
       \<and> pol_currentPos (singlePolaroidFrame pd camera progress delta ps)
            = vlerp (pol_currentPos ps) (if progress > 0.5 then pol_chaos pd else pol_target pd) (delta * 2)"
  using assms
  by (simp add: giftBoxFrame_def ornamentInstanceFrame_def singlePolaroidFrame_def Let_def)

theorem threshold_gated_destination_witness:
  "map_option pol_position (pol_ref (singlePolaroidFrame
       \<lparr>pol_target = Vector3 1 0 0, pol_chaos = Vector3 0 9 0, tilt_x = 0.1, tilt_z = 0.2\<rparr>
       (Vector3 0 2 14) (1 / 2) (1 / 4)
       \<lparr>pol_currentPos = Vector3 3 0 0,
        pol_ref = Some \<lparr>pol_position = Vector3 3 0 0, pol_orientation = Euler 0 0 0, pol_scale = 1\<rparr>\<rparr>))
     = Some (Vector3 2 0 0)
   \<and> map_option pol_position (pol_ref (singlePolaroidFrame
       \<lparr>pol_target = Vector3 1 0 0, pol_chaos = Vector3 0 9 0, tilt_x = 0.1, tilt_z = 0.2\<rparr>
       (Vector3 0 2 14) (3 / 4) (1 / 4)
       \<lparr>pol_currentPos = Vector3 3 0 0,
        pol_ref = Some \<lparr>pol_position = Vector3 3 0 0, pol_orientation = Euler 0 0 0, pol_scale = 1\<rparr>\<rparr>))
     = Some (Vector3 (3 / 2) (9 / 2) 0)"
  using
    threshold_gated_destination
      [where gs = "\<lparr>inst_currentPos = Vector3 0 0 0,
                    inst_ref = Some \<lparr>position = Vector3 0 0 0, rotation = Vector3 0 0 0, scale = 1\<rparr>\<rparr>"
         and g = "\<lparr>position = Vector3 0 0 0, rotation = Vector3 0 0 0, scale = 1\<rparr>"
         and os = "\<lparr>inst_currentPos = Vector3 0 0 0,
                    inst_ref = Some \<lparr>position = Vector3 0 0 0, rotation = Vector3 0 0 0, scale = 1\<rparr>\<rparr>"
         and og = "\<lparr>position = Vector3 0 0 0, rotation = Vector3 0 0 0, scale = 1\<rparr>"
         and ps = "\<lparr>pol_currentPos = Vector3 3 0 0,
                    pol_ref = Some \<lparr>pol_position = Vector3 3 0 0, pol_orientation = Euler 0 0 0, pol_scale = 1\<rparr>\<rparr>"
         and pg = "\<lparr>pol_position = Vector3 3 0 0, pol_orientation = Euler 0 0 0, pol_scale = 1\<rparr>"
         and progress = "1 / 2" and delta = "1 / 4"
         and pd = "\<lparr>pol_target = Vector3 1 0 0, pol_chaos = Vector3 0 9 0, tilt_x = 0.1, tilt_z = 0.2\<rparr>"
         and camera = "Vector3 0 2 14"]
    threshold_gated_destination
      [where gs = "\<lparr>inst_currentPos = Vector3 0 0 0,
                    inst_ref = Some \<lparr>position = Vector3 0 0 0, rotation = Vector3 0 0 0, scale = 1\<rparr>\<rparr>"
         and g = "\<lparr>position = Vector3 0 0 0, rotation = Vector3 0 0 0, scale = 1\<rparr>"
         and os = "\<lparr>inst_currentPos = Vector3 0 0 0,
                    inst_ref = Some \<lparr>position = Vector3 0 0 0, rotation = Vector3 0 0 0, scale = 1\<rparr>\<rparr>"
         and og = "\<lparr>position = Vector3 0 0 0, rotation = Vector3 0 0 0, scale = 1\<rparr>"
         and ps = "\<lparr>pol_currentPos = Vector3 3 0 0,
                    pol_ref = Some \<lparr>pol_position = Vector3 3 0 0, pol_orientation = Euler 0 0 0, pol_scale = 1\<rparr>\<rparr>"
         and pg = "\<lparr>pol_position = Vector3 3 0 0, pol_orientation = Euler 0 0 0, pol_scale = 1\<rparr>"
         and progress = "3 / 4" and delta = "1 / 4"
         and pd = "\<lparr>pol_target = Vector3 1 0 0, pol_chaos = Vector3 0 9 0, tilt_x = 0.1, tilt_z = 0.2\<rparr>"
         and camera = "Vector3 0 2 14"]
  by (simp add: vlerp_def)

section \<open>Properties of the distribution generator\<close>

lemma getChaosPos_length:
  "vlength (getChaosPos S m u1 u2 u3)
     = \<bar>root 3 (u3 * (1 - m ^ 3) + m ^ 3) * S\<bar>"
proof -
  define r where "r = root 3 (u3 * (1 - m ^ 3) + m ^ 3) * S"
  define phi where "phi = arccos (2 * u2 - 1)"
  define theta where "theta = u1 * pi * 2"
  have "(r * sin phi * cos theta) * (r * sin phi * cos theta)
        + (r * sin phi * sin theta) * (r * sin phi * sin theta)
        + (r * cos phi) * (r * cos phi)
      = r\<^sup>2 * ((sin phi)\<^sup>2 * ((cos theta)\<^sup>2 + (sin theta)\<^sup>2) + (cos phi)\<^sup>2)"
    by (simp only: power2_eq_square algebra_simps)
  also have "\<dots> = r\<^sup>2"
    by simp
  finally have "vlength (Vector3 (r * sin phi * cos theta) (r * sin phi * sin theta) (r * cos phi)) = \<bar>r\<bar>"
    by (simp add: vlength_def)
  then show ?thesis
    by (simp add: getChaosPos_def Let_def r_def phi_def theta_def)
qed

lemma shell_radius_bounds:
  assumes "0 \<le> m" "m \<le> 1" "0 \<le> u" "u < 1"
  shows "m \<le> root 3 (u * (1 - m ^ 3) + m ^ 3)" and "root 3 (u * (1 - m ^ 3) + m ^ 3) \<le> 1"
proof -
  have m3: "m ^ 3 \<le> 1"
    using assms by (simp add: power_le_one)
  have lo: "m ^ 3 \<le> u * (1 - m ^ 3) + m ^ 3"
    using assms m3 by simp
  have "u * (1 - m ^ 3) \<le> 1 * (1 - m ^ 3)"
    using assms m3 by (intro mult_right_mono) simp_all
  then have hi: "u * (1 - m ^ 3) + m ^ 3 \<le> 1"
    by simp
  have "root 3 (m ^ 3) \<le> root 3 (u * (1 - m ^ 3) + m ^ 3)"
    using lo by simp
  moreover have "root 3 (m ^ 3) = m"
    by (simp add: odd_real_root_power_cancel)
  ultimately show "m \<le> root 3 (u * (1 - m ^ 3) + m ^ 3)"
    by simp
  have "root 3 (u * (1 - m ^ 3) + m ^ 3) \<le> root 3 1"
    using hi by (simp del: real_root_one)
  then show "root 3 (u * (1 - m ^ 3) + m ^ 3) \<le> 1"
    by simp
qed

text \<open>
  Claim C4. For a scale \<open>S > 0\<close>, a minimum-radius ratio \<open>m\<close> in \<open>[0, 1]\<close> and three draws
  in \<open>[0, 1)\<close>, the point is \<open>r\<close> times the unit vector of the spherical angles
  \<open>\<theta> = u1 * 2\<pi>\<close> (which lies in \<open>[0, 2\<pi>)\<close>) and \<open>\<phi> = arccos (2 u2 - 1)\<close>, with
  \<open>r = cbrt (u3 (1 - m\<^sup>3) + m\<^sup>3) * S\<close>; and its Euclidean norm lies between \<open>m * S\<close>
  and \<open>S\<close>.
\<close>

theorem getChaosPos_hollow_shell:
  assumes "0 < S" and "0 \<le> m" and "m \<le> 1"
    and "0 \<le> u1" and "u1 < 1" and "0 \<le> u2" and "u2 < 1" and "0 \<le> u3" and "u3 < 1"
  shows "getChaosPos S m u1 u2 u3 =
           Vector3 (root 3 (u3 * (1 - m ^ 3) + m ^ 3) * S * sin (arccos (2 * u2 - 1)) * cos (u1 * pi * 2))
                   (root 3 (u3 * (1 - m ^ 3) + m ^ 3) * S * sin (arccos (2 * u2 - 1)) * sin (u1 * pi * 2))
                   (root 3 (u3 * (1 - m ^ 3) + m ^ 3) * S * cos (arccos (2 * u2 - 1)))
       \<and> 0 \<le> u1 * pi * 2 \<and> u1 * pi * 2 < 2 * pi
       \<and> m * S \<le> vlength (getChaosPos S m u1 u2 u3)
       \<and> vlength (getChaosPos S m u1 u2 u3) \<le> S"
proof -
  let ?c = "root 3 (u3 * (1 - m ^ 3) + m ^ 3)"
  from shell_radius_bounds [OF assms(2,3,8,9)] have c: "m \<le> ?c" "?c \<le> 1"
    by simp_all
  with assms have c0: "0 \<le> ?c" by linarith
  have len: "vlength (getChaosPos S m u1 u2 u3) = ?c * S"
    using c0 assms(1) by (simp add: getChaosPos_length abs_mult)
  have "m * S \<le> ?c * S" and "?c * S \<le> 1 * S"
    using c assms(1) by (simp_all add: mult_right_mono)
  with len have bounds: "m * S \<le> vlength (getChaosPos S m u1 u2 u3)"
      "vlength (getChaosPos S m u1 u2 u3) \<le> S"
    by simp_all
  have angle: "0 \<le> u1 * pi * 2" "u1 * pi * 2 < 2 * pi"
    using assms(4,5) by simp_all
  have formula: "getChaosPos S m u1 u2 u3 =
           Vector3 (?c * S * sin (arccos (2 * u2 - 1)) * cos (u1 * pi * 2))
                   (?c * S * sin (arccos (2 * u2 - 1)) * sin (u1 * pi * 2))
                   (?c * S * cos (arccos (2 * u2 - 1)))"
    by (simp add: getChaosPos_def Let_def)
  from formula angle bounds show ?thesis
    by blast
qed

theorem getChaosPos_hollow_shell_witness:
  "(0::real) < 25
   \<and> (1 / 2) * 25 \<le> vlength (getChaosPos 25 (1 / 2) 0 (1 / 2) 0)
   \<and> vlength (getChaosPos 25 (1 / 2) 0 (1 / 2) 0) \<le> 25"
proof -
  have pos: "(0::real) < 25"
    by simp
  have "getChaosPos 25 (1 / 2) 0 (1 / 2) 0 =
           Vector3 (root 3 (0 * (1 - (1 / 2) ^ 3) + (1 / 2) ^ 3) * 25 * sin (arccos (2 * (1 / 2) - 1)) * cos (0 * pi * 2))
                   (root 3 (0 * (1 - (1 / 2) ^ 3) + (1 / 2) ^ 3) * 25 * sin (arccos (2 * (1 / 2) - 1)) * sin (0 * pi * 2))
                   (root 3 (0 * (1 - (1 / 2) ^ 3) + (1 / 2) ^ 3) * 25 * cos (arccos (2 * (1 / 2) - 1)))
       \<and> 0 \<le> 0 * pi * 2 \<and> 0 * pi * 2 < 2 * pi
       \<and> (1 / 2) * 25 \<le> vlength (getChaosPos 25 (1 / 2) 0 (1 / 2) 0)
       \<and> vlength (getChaosPos 25 (1 / 2) 0 (1 / 2) 0) \<le> 25"
    by (rule getChaosPos_hollow_shell) simp_all
  with pos show ?thesis
    by blast
qed

text \<open>
  Claim C5. For particle \<open>i\<close> of \<open>count\<close> foliage particles, with every random draw in
  \<open>[0, 1)\<close>: let \<open>t = 1 - sqrt ((i + 1) / (count + 1))\<close> and \<open>\<theta> = i * GOLDEN_ANGLE\<close>, where
  \<open>GOLDEN_ANGLE = \<pi> (3 - sqrt 5)\<close>. The position before jitter is \<open>getTreePos\<close> of these
  with the tree's height 7 and width 3.5, that is \<open>y = height * t - height / 2\<close>,
  \<open>radius = width (1 - t)\<close>, \<open>x = radius cos \<theta>\<close>, \<open>z = radius sin \<theta>\<close>; and the stored
  formed position differs from it by at most 0.025 on each axis.
\<close>

theorem foliage_formed_position:
  assumes "\<forall>k. 0 \<le> rand k \<and> rand k < 1"
  shows "GOLDEN_ANGLE = pi * (3 - sqrt 5)
       \<and> getTreePos t theta height width =
           Vector3 (width * (1 - t) * cos theta) (height * t - height / 2) (width * (1 - t) * sin theta)
       \<and> \<bar>vx (aTargetPos (foliageParticle count rand i))
            - vx (getTreePos (1 - sqrt ((real i + 1) / (real count + 1))) (real i * GOLDEN_ANGLE) 7 3.5)\<bar>
           \<le> 0.025
       \<and> \<bar>vy (aTargetPos (foliageParticle count rand i))
            - vy (getTreePos (1 - sqrt ((real i + 1) / (real count + 1))) (real i * GOLDEN_ANGLE) 7 3.5)\<bar>
           \<le> 0.025
       \<and> \<bar>vz (aTargetPos (foliageParticle count rand i))
            - vz (getTreePos (1 - sqrt ((real i + 1) / (real count + 1))) (real i * GOLDEN_ANGLE) 7 3.5)\<bar>
           \<le> 0.025"
proof -
  have jitter: "\<bar>(rand k - 0.5) * 0.05\<bar> \<le> 0.025" for k
  proof -
    from assms have "0 \<le> rand k" "rand k < 1" by simp_all
    then have "\<bar>rand k - 1 / 2\<bar> \<le> 1 / 2" by (intro abs_leI) simp_all
    then show ?thesis by (simp add: abs_mult)
  qed
  show ?thesis
    using jitter [of "7 * i"] jitter [of "7 * i + 1"] jitter [of "7 * i + 2"]
    by (simp add: foliageParticle_def getTreePos_def Let_def GOLDEN_ANGLE_def TREE_HEIGHT_def TREE_WIDTH_def)
qed

theorem foliage_formed_position_witness:
  "aTargetPos (foliageParticle 9000 (\<lambda>k. 1 / 2) 0)
     = getTreePos (1 - sqrt (1 / 9001)) 0 7 3.5
   \<and> \<bar>vx (aTargetPos (foliageParticle 9000 (\<lambda>k. 0) 0))
        - vx (getTreePos (1 - sqrt ((real 0 + 1) / (real 9000 + 1))) (real 0 * GOLDEN_ANGLE) 7 3.5)\<bar> \<le> 0.025"
proof -
  have h: "\<forall>k::nat. (0::real) \<le> 0 \<and> (0::real) < 1"
    by simp
  from foliage_formed_position [of "\<lambda>k. 0" _ _ _ _ 9000 0, OF h]
  have "\<bar>vx (aTargetPos (foliageParticle 9000 (\<lambda>k. 0) 0))
        - vx (getTreePos (1 - sqrt ((real 0 + 1) / (real 9000 + 1))) (real 0 * GOLDEN_ANGLE) 7 3.5)\<bar> \<le> 0.025"
    by blast
  moreover have "aTargetPos (foliageParticle 9000 (\<lambda>k. 1 / 2) 0) = getTreePos (1 - sqrt (1 / 9001)) 0 7 3.5"
    by (simp add: foliageParticle_def getTreePos_def Let_def TREE_HEIGHT_def TREE_WIDTH_def)
  ultimately show ?thesis by blast
qed

end
